theory Spec2Isabelle
  imports Main "HOL-Library.Multiset" "HOL-Library.Word"
begin

section \<open>Column types and conversion targets\<close>

text \<open>
  The dtype of a pandas column, as \<open>df[col].dtype\<close> returns it. \<open>read_csv\<close> infers
  \<open>int64\<close>, \<open>float64\<close>, \<open>bool\<close> and \<open>object\<close>; \<open>category\<close> and the extension dtype
  \<open>string\<close> arise from conversions; \<open>DOther n\<close> stands for every remaining dtype, of
  name \<open>n\<close> (\<open>int32\<close>, \<open>datetime64[ns]\<close>, ...).
\<close>

datatype dtype = DInt64 | DFloat64 | DObject | DBool | DCategory | DString | DOther string

text \<open>
  The four Python objects that \<open>change_data_types\<close> puts into \<open>possible_types\<close>:
  the classes \<open>np.int64\<close> and \<open>np.float64\<close> and the strings \<open>'string'\<close> and
  \<open>'category'\<close>.
\<close>

datatype type_tag = NpInt64 | NpFloat64 | StrString | StrCategory

text \<open>
  Python's \<open>==\<close> between one of these objects and a dtype (in either order: the class and
  the string defer to the dtype's comparison). A numpy dtype equals what converts to the
  same dtype, so \<open>dtype('int64') == np.int64\<close>, and it equals neither \<open>'string'\<close> nor
  \<open>'category'\<close>, which name no numpy dtype; \<open>CategoricalDtype\<close> equals the string
  \<open>'category'\<close> and \<open>StringDtype\<close> the string \<open>'string'\<close>.
\<close>

fun tag_eq_dtype :: "type_tag \<Rightarrow> dtype \<Rightarrow> bool" where
  "tag_eq_dtype NpInt64 d = (d = DInt64)"
| "tag_eq_dtype NpFloat64 d = (d = DFloat64)"
| "tag_eq_dtype StrString d = (d = DString)"
| "tag_eq_dtype StrCategory d = (d = DCategory)"

text \<open>\<open>original_type == 'object'\<close>\<close>

definition eq_object :: "dtype \<Rightarrow> bool" where
  "eq_object d = (d = DObject)"

text \<open>\<open>x in xs\<close> for a dtype \<open>x\<close> and a list of the objects above.\<close>

definition dtype_in :: "dtype \<Rightarrow> type_tag list \<Rightarrow> bool" where
  "dtype_in d ts = list_ex (\<lambda>t. tag_eq_dtype t d) ts"

text \<open>
  \<open>xs.remove(x)\<close>: deletes the first item equal to \<open>x\<close>; \<open>None\<close> is the \<open>ValueError\<close>
  raised when there is none.
\<close>

fun py_remove :: "('a \<Rightarrow> bool) \<Rightarrow> 'a list \<Rightarrow> 'a list option" where
  "py_remove P [] = None"
| "py_remove P (x # xs) =
     (if P x then Some xs else map_option ((#) x) (py_remove P xs))"

definition numeric_types :: "type_tag list" where
  "numeric_types = [NpInt64, NpFloat64]"

text \<open>Lines 76 to 92 of \<open>change_data_types\<close>: the candidate list of one column.\<close>

definition possible_types :: "dtype \<Rightarrow> type_tag list" where
  "possible_types original_type =
     (let p0 = [NpInt64, NpFloat64, StrString, StrCategory];
          p1 = (if dtype_in original_type numeric_types
                then filter (\<lambda>t. t \<notin> set numeric_types) p0 else p0);
          p2 = (if eq_object original_type
                then filter (\<lambda>t. t \<noteq> StrCategory) p1 else p1)
      in case py_remove (\<lambda>t. tag_eq_dtype t original_type) p2 of
           Some p3 \<Rightarrow> p3
         | None \<Rightarrow> p2)"

section \<open>The shared pseudorandom generator\<close>

text \<open>
  The generator of Python's \<open>random\<close> module is library code. Its state is taken to be
  the sequence of the raw draws it will still deliver, and \<open>random.seed(s)\<close> is a
  parameter (\<open>seed_gen\<close> below) that yields the state belonging to \<open>s\<close>.
  \<open>_randbelow(n)\<close> consumes one draw and returns a number below \<open>n\<close>; every sequence
  of results the library can produce is the result of some such state.
\<close>

type_synonym rng = "nat \<Rightarrow> nat"

definition randbelow :: "rng \<Rightarrow> nat \<Rightarrow> nat \<times> rng" where
  "randbelow g n = (g 0 mod n, \<lambda>i. g (Suc i))"

text \<open>
  \<open>random.shuffle(x)\<close>:
  \<^verbatim>\<open>for i in reversed(range(1, len(x))): j = randbelow(i + 1); x[i], x[j] = x[j], x[i]\<close>
\<close>

primrec shuffle_from :: "nat \<Rightarrow> 'a list \<Rightarrow> rng \<Rightarrow> 'a list \<times> rng" where
  "shuffle_from 0 xs g = (xs, g)"
| "shuffle_from (Suc i) xs g =
     (let (j, g') = randbelow g (Suc i + 1)
      in shuffle_from i (xs[Suc i := xs ! j, j := xs ! Suc i]) g')"

definition shuffle :: "'a list \<Rightarrow> rng \<Rightarrow> 'a list \<times> rng" where
  "shuffle xs g = shuffle_from (length xs - 1) xs g"

text \<open>\<open>random.choice(seq)\<close> is \<open>seq[randbelow(len(seq))]\<close>; the caller guards the empty list.\<close>

definition choice :: "'a list \<Rightarrow> rng \<Rightarrow> 'a \<times> rng" where
  "choice xs g = (let (j, g') = randbelow g (length xs) in (xs ! j, g'))"

section \<open>Tables\<close>

text \<open>
  A cell of a column. \<open>'f\<close> is the type of the 64-bit floating-point numbers other than
  NaN (finite or infinite); NaN, which also marks a missing value, is a cell of its own.
\<close>

datatype 'f cell = IntV "64 word" | FloatV 'f | NaN | StrV string | BoolV bool

record 'f column =
  cname :: string
  cdtype :: dtype
  cvalues :: "'f cell list"

text \<open>A DataFrame: its columns in order and the length of its row index.\<close>

record 'f dataframe =
  columns :: "'f column list"
  nrows :: nat

definition column_names :: "'f dataframe \<Rightarrow> string list" where
  "column_names df = map cname (columns df)"


datatype exn =
    FileNotFoundError string
  | ValueError string
  | AttributeError string
  | KeyError string
  | OSError string
  | OtherException string

fun exn_message :: "exn \<Rightarrow> string" where
  "exn_message (FileNotFoundError m) = m"
| "exn_message (ValueError m) = m"
| "exn_message (AttributeError m) = m"
| "exn_message (KeyError m) = m"
| "exn_message (OSError m) = m"
| "exn_message (OtherException m) = m"

datatype level = INFO | WARNING | ERROR

type_synonym log = "(level \<times> string) list"

text \<open>A number as \<open>pd.to_numeric\<close> reads it: a 64-bit integer or a float that is not NaN.\<close>

datatype 'f number = NInt "64 word" | NFloat 'f

text \<open>
  What the program uses of its libraries and does not define itself:
  \<^item> \<open>seed_gen s\<close>: the generator state after \<open>random.seed(s)\<close>;
  \<^item> \<open>parse_number s\<close>: the number \<open>pd.to_numeric\<close> reads from the text \<open>s\<close>, \<open>None\<close> when
    \<open>s\<close> does not parse;
  \<^item> \<open>float_of_int\<close>, \<open>int_of_float\<close>: the casts between \<open>int64\<close> and finite \<open>float64\<close>;
  \<^item> \<open>is_finite\<close>: whether a float is neither infinity;
  \<^item> \<open>str_float\<close>: \<open>str\<close> of a float;
  \<^item> \<open>read_csv\<close>: the parser of \<open>pd.read_csv\<close> on the text of a file;
  \<^item> \<open>to_csv\<close>: the text \<open>df.to_csv(index=False)\<close> writes.
\<close>

record 'f library =
  seed_gen :: "int \<Rightarrow> rng"
  parse_number :: "string \<Rightarrow> 'f number option"
  float_of_int :: "64 word \<Rightarrow> 'f"
  int_of_float :: "'f \<Rightarrow> 64 word"
  is_finite :: "'f \<Rightarrow> bool"
  str_float :: "'f \<Rightarrow> string"
  read_csv :: "string \<Rightarrow> exn + 'f dataframe"
  to_csv :: "'f dataframe \<Rightarrow> string"

section \<open>Text of numbers\<close>

definition digit_char :: "nat \<Rightarrow> char" where
  "digit_char d = char_of (48 + d)"

fun str_nat :: "nat \<Rightarrow> string" where
  "str_nat n = (if n < 10 then [digit_char n] else str_nat (n div 10) @ [digit_char (n mod 10)])"

declare str_nat.simps [simp del]

definition str_int :: "int \<Rightarrow> string" where
  "str_int i = (if i < 0 then CHR ''-'' # str_nat (nat (- i)) else str_nat (nat i))"

text \<open>\<open>str(v)\<close> of a cell.\<close>

fun py_str :: "'f library \<Rightarrow> 'f cell \<Rightarrow> string" where
  "py_str lib (IntV i) = str_int (sint i)"
| "py_str lib (FloatV f) = str_float lib f"
| "py_str lib NaN = ''nan''"
| "py_str lib (StrV s) = s"
| "py_str lib (BoolV b) = (if b then ''True'' else ''False'')"

fun str_dtype :: "dtype \<Rightarrow> string" where
  "str_dtype DInt64 = ''int64''"
| "str_dtype DFloat64 = ''float64''"
| "str_dtype DObject = ''object''"
| "str_dtype DBool = ''bool''"
| "str_dtype DCategory = ''category''"
| "str_dtype DString = ''string''"
| "str_dtype (DOther n) = n"

definition quote :: "string \<Rightarrow> string" where
  "quote s = CHR 0x27 # s @ [CHR 0x27]"

fun str_tag :: "type_tag \<Rightarrow> string" where
  "str_tag NpInt64 = ''<class '' @ quote ''numpy.int64'' @ ''>''"
| "str_tag NpFloat64 = ''<class '' @ quote ''numpy.float64'' @ ''>''"
| "str_tag StrString = ''string''"
| "str_tag StrCategory = ''category''"

section \<open>Renaming and reordering\<close>

text \<open>
  \<open>if seed: random.seed(seed)\<close>, the first statement of each stage. \<open>None\<close> and \<open>0\<close> are
  the falsy values of an optional integer.
\<close>

definition seed_if_truthy :: "'f library \<Rightarrow> int option \<Rightarrow> rng \<Rightarrow> rng" where
  "seed_if_truthy lib seed g =
     (case seed of None \<Rightarrow> g | Some s \<Rightarrow> if s \<noteq> 0 then seed_gen lib s else g)"

text \<open>
  \<open>dict(zip(ks, vs))\<close>: a later pair overwrites an earlier one with the same key, so
  the lookup finds the last pair of a key first.
\<close>

definition dict_zip :: "'k list \<Rightarrow> 'v list \<Rightarrow> ('k \<rightharpoonup> 'v)" where
  "dict_zip ks vs = map_of (rev (zip ks vs))"

text \<open>\<open>df.rename(columns=m)\<close>: a name that is a key of \<open>m\<close> is replaced, any other is kept.\<close>

definition rename :: "(string \<rightharpoonup> string) \<Rightarrow> 'f dataframe \<Rightarrow> 'f dataframe" where
  "rename m df =
     df\<lparr>columns := map (\<lambda>c. c\<lparr>cname := (case m (cname c) of Some n \<Rightarrow> n | None \<Rightarrow> cname c)\<rparr>)
                        (columns df)\<rparr>"

definition new_column_names :: "nat \<Rightarrow> string list" where
  "new_column_names n = map (\<lambda>i. ''column_'' @ str_nat i) [0..<n]"

definition randomize_column_names ::
  "'f library \<Rightarrow> 'f dataframe \<Rightarrow> int option \<Rightarrow> rng \<Rightarrow> 'f dataframe \<times> rng" where
  "randomize_column_names lib df seed g =
     (let g1 = seed_if_truthy lib seed g;
          (new_names, g2) = shuffle (new_column_names (length (columns df))) g1
      in (rename (dict_zip (column_names df) new_names) df, g2))"

text \<open>
  \<open>df[names]\<close> for a list of names that all occur in \<open>df\<close>: each name selects every column
  that carries it, in the order of \<open>df\<close>.
\<close>

definition getitem_list :: "'f dataframe \<Rightarrow> string list \<Rightarrow> 'f dataframe" where
  "getitem_list df names =
     df\<lparr>columns := concat (map (\<lambda>n. filter (\<lambda>c. cname c = n) (columns df)) names)\<rparr>"

definition reorder_columns ::
  "'f library \<Rightarrow> 'f dataframe \<Rightarrow> int option \<Rightarrow> rng \<Rightarrow> 'f dataframe \<times> rng" where
  "reorder_columns lib df seed g =
     (let g1 = seed_if_truthy lib seed g;
          (cols, g2) = shuffle (column_names df) g1
      in (getitem_list df cols, g2))"

section \<open>Type coercion\<close>

text \<open>
  The result of \<open>pd.to_numeric(..., errors='coerce')\<close>: an \<open>int64\<close> series when every
  value reads as an integer, else a \<open>float64\<close> series in which \<open>None\<close> is NaN.
\<close>

datatype 'f series = IntSeries "64 word list" | FloatSeries "'f option list"

fun numeric_of :: "'f library \<Rightarrow> 'f cell \<Rightarrow> 'f number option" where
  "numeric_of lib (IntV i) = Some (NInt i)"
| "numeric_of lib (FloatV f) = Some (NFloat f)"
| "numeric_of lib NaN = None"
| "numeric_of lib (StrV s) = parse_number lib s"
| "numeric_of lib (BoolV b) = Some (NInt (if b then 1 else 0))"

fun the_int :: "'f number option \<Rightarrow> 64 word option" where
  "the_int (Some (NInt i)) = Some i"
| "the_int _ = None"

fun as_float :: "'f library \<Rightarrow> 'f number \<Rightarrow> 'f" where
  "as_float lib (NInt i) = float_of_int lib i"
| "as_float lib (NFloat f) = f"

definition to_numeric :: "'f library \<Rightarrow> 'f cell list \<Rightarrow> 'f series" where
  "to_numeric lib vs =
     (let ns = map (numeric_of lib) vs
      in case those (map the_int ns) of
           Some is \<Rightarrow> IntSeries is
         | None \<Rightarrow> FloatSeries (map (map_option (as_float lib)) ns))"

text \<open>\<open>.fillna(0)\<close> and \<open>.fillna(0.0)\<close>: NaN becomes zero; an \<open>int64\<close> series holds no NaN.\<close>

fun fillna_zero :: "'f library \<Rightarrow> 'f series \<Rightarrow> 'f series" where
  "fillna_zero lib (IntSeries is) = IntSeries is"
| "fillna_zero lib (FloatSeries fs) =
     FloatSeries (map (\<lambda>x. case x of None \<Rightarrow> Some (float_of_int lib 0) | Some f \<Rightarrow> Some f) fs)"

text \<open>\<open>.astype(np.int64)\<close> raises on a float series that holds NaN or an infinity.\<close>

fun astype_int64 :: "'f library \<Rightarrow> 'f series \<Rightarrow> exn + 64 word list" where
  "astype_int64 lib (IntSeries is) = Inr is"
| "astype_int64 lib (FloatSeries fs) =
     (if list_all (\<lambda>x. case x of None \<Rightarrow> False | Some f \<Rightarrow> is_finite lib f) fs
      then Inr (map (\<lambda>x. int_of_float lib (the x)) fs)
      else Inl (ValueError ''Cannot convert non-finite values (NA or inf) to integer''))"

fun astype_float64 :: "'f library \<Rightarrow> 'f series \<Rightarrow> 'f option list" where
  "astype_float64 lib (IntSeries is) = map (\<lambda>i. Some (float_of_int lib i)) is"
| "astype_float64 lib (FloatSeries fs) = fs"

definition float_cell :: "'f option \<Rightarrow> 'f cell" where
  "float_cell x = (case x of None \<Rightarrow> NaN | Some f \<Rightarrow> FloatV f)"

text \<open>
  Lines 101 to 108: the conversion of one column to the chosen type. \<open>astype(str)\<close>
  yields the \<open>str\<close> of every value in a column of dtype \<open>object\<close>;
  \<open>astype('category')\<close> keeps the values and changes the dtype.
\<close>

fun convert :: "'f library \<Rightarrow> type_tag \<Rightarrow> 'f column \<Rightarrow> exn + 'f column" where
  "convert lib NpInt64 c =
     (case astype_int64 lib (fillna_zero lib (to_numeric lib (cvalues c))) of
        Inl e \<Rightarrow> Inl e
      | Inr is \<Rightarrow> Inr (c\<lparr>cdtype := DInt64, cvalues := map IntV is\<rparr>))"
| "convert lib NpFloat64 c =
     Inr (c\<lparr>cdtype := DFloat64,
            cvalues := map float_cell
                         (astype_float64 lib (fillna_zero lib (to_numeric lib (cvalues c))))\<rparr>)"
| "convert lib StrString c =
     Inr (c\<lparr>cdtype := DObject, cvalues := map (\<lambda>v. StrV (py_str lib v)) (cvalues c)\<rparr>)"
| "convert lib StrCategory c = Inr (c\<lparr>cdtype := DCategory\<rparr>)"

text \<open>
  \<open>df[col]\<close> for a single name: the column when exactly one carries the name; a DataFrame
  when several do, and then \<open>.dtype\<close> raises \<open>AttributeError\<close>.
\<close>

definition getitem_dtype :: "'f dataframe \<Rightarrow> string \<Rightarrow> exn + 'f column" where
  "getitem_dtype df col =
     (case filter (\<lambda>c. cname c = col) (columns df) of
        [] \<Rightarrow> Inl (KeyError col)
      | [c] \<Rightarrow> Inr c
      | _ \<Rightarrow> Inl (AttributeError
                 (quote ''DataFrame'' @ '' object has no attribute '' @ quote ''dtype'')))"

text \<open>\<open>df[col] = s\<close> for a name that one column carries.\<close>

definition setitem :: "'f dataframe \<Rightarrow> string \<Rightarrow> 'f column \<Rightarrow> 'f dataframe" where
  "setitem df col c' = df\<lparr>columns := map (\<lambda>c. if cname c = col then c' else c) (columns df)\<rparr>"

text \<open>
  The loop of \<open>change_data_types\<close> over the names still to visit. The generator and the
  log are process state, so they are returned also when an exception leaves the loop.
\<close>

fun change_loop ::
  "'f library \<Rightarrow> string list \<Rightarrow> 'f dataframe \<Rightarrow> rng \<Rightarrow> log \<Rightarrow> (exn + 'f dataframe) \<times> rng \<times> log" where
  "change_loop lib [] df g lg = (Inr df, g, lg)"
| "change_loop lib (col # rest) df g lg =
     (case getitem_dtype df col of
        Inl e \<Rightarrow> (Inl e, g, lg)
      | Inr c \<Rightarrow>
          (let original_type = cdtype c;
               possible = possible_types original_type
           in if possible = []
              then change_loop lib rest df g
                     (lg @ [(WARNING, ''No valid conversion types found for column: '' @ col)])
              else
                (let (new_type, g') = choice possible g
                 in case convert lib new_type c of
                      Inr c' \<Rightarrow>
                        change_loop lib rest (setitem df col c') g'
                          (lg @ [(INFO, ''Column '' @ quote col @ '' converted from ''
                                     @ str_dtype original_type @ '' to '' @ str_tag new_type)])
                    | Inl e \<Rightarrow>
                        change_loop lib rest df g'
                          (lg @ [(ERROR, ''Failed to convert column '' @ quote col @ '' from ''
                                     @ str_dtype original_type @ '' to '' @ str_tag new_type
                                     @ '': '' @ exn_message e)]))))"

definition change_data_types ::
  "'f library \<Rightarrow> 'f dataframe \<Rightarrow> int option \<Rightarrow> rng \<Rightarrow> log \<Rightarrow> (exn + 'f dataframe) \<times> rng \<times> log" where
  "change_data_types lib df seed g lg =
     change_loop lib (column_names df) df (seed_if_truthy lib seed g) lg"

section \<open>Files and the main routine\<close>

text \<open>
  The file system as the program sees it: a path holds text, or holds something that
  cannot be opened (a directory, a file without permission); \<open>create_error\<close> is the
  error that creating a file at a free path raises, if it raises.
\<close>

datatype fentry = Regular string | Inaccessible string

record filesystem =
  files :: "string \<rightharpoonup> fentry"
  create_error :: "string \<rightharpoonup> exn"

definition open_read :: "filesystem \<Rightarrow> string \<Rightarrow> exn + string" where
  "open_read fs path =
     (case files fs path of
        None \<Rightarrow> Inl (FileNotFoundError (''No such file or directory: '' @ quote path))
      | Some (Inaccessible m) \<Rightarrow> Inl (OSError m)
      | Some (Regular t) \<Rightarrow> Inr t)"

definition open_write :: "filesystem \<Rightarrow> string \<Rightarrow> string \<Rightarrow> exn + filesystem" where
  "open_write fs path t =
     (case files fs path of
        Some (Inaccessible m) \<Rightarrow> Inl (OSError m)
      | Some (Regular _) \<Rightarrow> Inr (fs\<lparr>files := (files fs)(path \<mapsto> Regular t)\<rparr>)
      | None \<Rightarrow>
          (case create_error fs path of
             Some e \<Rightarrow> Inl e
           | None \<Rightarrow> Inr (fs\<lparr>files := (files fs)(path \<mapsto> Regular t)\<rparr>)))"

definition lower_char :: "char \<Rightarrow> char" where
  "lower_char c =
     (let n = of_char c :: nat in if 65 \<le> n \<and> n \<le> 90 then char_of (n + 32) else c)"

definition endswith :: "string \<Rightarrow> string \<Rightarrow> bool" where
  "endswith s t = (length t \<le> length s \<and> drop (length s - length t) s = t)"

definition validate_input :: "filesystem \<Rightarrow> string \<Rightarrow> exn + unit" where
  "validate_input fs input_file =
     (case open_read fs input_file of
        Inl (FileNotFoundError _) \<Rightarrow>
          Inl (FileNotFoundError (''Input file not found: '' @ input_file))
      | Inl e \<Rightarrow> Inl (OtherException (''Error accessing input file: '' @ exn_message e))
      | Inr _ \<Rightarrow>
          if \<not> endswith (map lower_char input_file) ''.csv''
          then Inl (ValueError ''Input file must be a CSV file.'')
          else Inr ())"

text \<open>\<open>pd.read_csv(path)\<close>: open the file, then parse its text.\<close>

definition load_csv :: "'f library \<Rightarrow> filesystem \<Rightarrow> string \<Rightarrow> exn + 'f dataframe" where
  "load_csv lib fs path =
     (case open_read fs path of Inl e \<Rightarrow> Inl e | Inr t \<Rightarrow> read_csv lib t)"

text \<open>What is left when \<open>main\<close> has returned: the exit status, the files, the generator, the log.\<close>

record process =
  exit_status :: nat
  fsys :: filesystem
  gen :: rng
  logged :: log

text \<open>
  The three \<open>except\<close> clauses of \<open>main\<close>. Every exception caught is logged with
  \<open>logging.error\<close>, and \<open>main\<close> returns, so the interpreter exits with status 0.
\<close>

fun handler_message :: "exn \<Rightarrow> string" where
  "handler_message (FileNotFoundError m) = m"
| "handler_message (ValueError m) = m"
| "handler_message e = ''An unexpected error occurred: '' @ exn_message e"

definition handle :: "exn \<Rightarrow> filesystem \<Rightarrow> rng \<Rightarrow> log \<Rightarrow> process" where
  "handle e fs g lg =
     \<lparr>exit_status = 0, fsys = fs, gen = g, logged = lg @ [(ERROR, handler_message e)]\<rparr>"

text \<open>Lines 156 to 158: the three stages in their fixed order.\<close>

definition apply_randomization ::
  "'f library \<Rightarrow> 'f dataframe \<Rightarrow> int option \<Rightarrow> rng \<Rightarrow> log \<Rightarrow> (exn + 'f dataframe) \<times> rng \<times> log" where
  "apply_randomization lib df seed g lg =
     (let (df1, g1) = randomize_column_names lib df seed g;
          (df2, g2) = reorder_columns lib df1 seed g1
      in change_data_types lib df2 seed g2 lg)"

definition main ::
  "'f library \<Rightarrow> string \<Rightarrow> string \<Rightarrow> int option \<Rightarrow> filesystem \<Rightarrow> rng \<Rightarrow> log \<Rightarrow> process" where
  "main lib input_file output_file seed fs g lg =
     (case validate_input fs input_file of
        Inl e \<Rightarrow> handle e fs g lg
      | Inr _ \<Rightarrow>
          (case load_csv lib fs input_file of
             Inl e \<Rightarrow> handle e fs g lg
           | Inr df \<Rightarrow>
               (let lg1 = lg @ [(INFO, ''Successfully read input file: '' @ input_file)];
                    (r, g', lg2) = apply_randomization lib df seed g lg1
                in case r of
                     Inl e \<Rightarrow> handle e fs g' lg2
                   | Inr df' \<Rightarrow>
                       (case open_write fs output_file (to_csv lib df') of
                          Inl e \<Rightarrow> handle e fs g' lg2
                        | Inr fs' \<Rightarrow>
                            \<lparr>exit_status = 0, fsys = fs', gen = g',
                             logged = lg2 @ [(INFO, ''Successfully wrote output to file: ''
                                                     @ output_file)]\<rparr>))))"

section \<open>A small library instance and sample tables\<close>

text \<open>
  An instance of the library parameters on which the model runs: the floats are the
  whole numbers and one infinity, the parser reads unsigned decimal integers and the
  text \<open>inf\<close>, as \<open>pd.to_numeric\<close> does, and reads nothing else.
\<close>

datatype sample_float = Whole int | Infinity

definition is_digit :: "char \<Rightarrow> bool" where
  "is_digit c = (48 \<le> (of_char c :: nat) \<and> (of_char c :: nat) \<le> 57)"

definition sample_parse :: "string \<Rightarrow> sample_float number option" where
  "sample_parse s =
     (if s = ''inf'' then Some (NFloat Infinity)
      else if s \<noteq> [] \<and> list_all is_digit s
      then Some (NInt (word_of_nat (foldl (\<lambda>a c. 10 * a + (of_char c - 48)) 0 s)))
      else None)"

fun sample_int_of_float :: "sample_float \<Rightarrow> 64 word" where
  "sample_int_of_float (Whole k) = word_of_int k"
| "sample_int_of_float Infinity = 0"

fun sample_str_float :: "sample_float \<Rightarrow> string" where
  "sample_str_float (Whole k) = str_int k @ ''.0''"
| "sample_str_float Infinity = ''inf''"

text \<open>The table of the file \<open>a,b / 1,x / 2,y\<close>: an \<open>int64\<close> column and a text column.\<close>

definition sample_table :: "sample_float dataframe" where
  "sample_table =
     \<lparr>columns = [\<lparr>cname = ''a'', cdtype = DInt64, cvalues = [IntV 1, IntV 2]\<rparr>,
                 \<lparr>cname = ''b'', cdtype = DObject, cvalues = [StrV ''x'', StrV ''y'']\<rparr>],
      nrows = 2\<rparr>"

definition sample_library :: "sample_float library" where
  "sample_library =
     \<lparr>seed_gen = (\<lambda>s i. nat \<bar>s\<bar> + i),
      parse_number = sample_parse,
      float_of_int = (\<lambda>w. Whole (sint w)),
      int_of_float = sample_int_of_float,
      is_finite = (\<lambda>f. f \<noteq> Infinity),
      str_float = sample_str_float,
      read_csv = (\<lambda>t. if t = [] then Inl (ValueError ''No columns to parse from file'')
                       else Inr sample_table),
      to_csv = (\<lambda>df. concat (map (\<lambda>c. cname c @ '','') (columns df)))\<rparr>"

text \<open>A table in which two columns carry the same name.\<close>

definition duplicate_table :: "sample_float dataframe" where
  "duplicate_table =
     \<lparr>columns = [\<lparr>cname = ''a'', cdtype = DInt64, cvalues = [IntV 1]\<rparr>,
                 \<lparr>cname = ''a'', cdtype = DInt64, cvalues = [IntV 2]\<rparr>],
      nrows = 1\<rparr>"



text \<open>
  A table with one column of dtype \<open>uint64\<close>, as \<open>read_csv\<close> infers it for an integer
  column that holds a value from \<open>2^63\<close> on; the cell is the 64-bit pattern of \<open>2^63\<close>.
\<close>

definition uint64_table :: "sample_float dataframe" where
  "uint64_table =
     \<lparr>columns = [\<lparr>cname = ''u'', cdtype = DOther ''uint64'',
                   cvalues = [IntV 9223372036854775808]\<rparr>],
      nrows = 1\<rparr>"

text \<open>A file system without files, and one that holds only the file \<open>data.txt\<close>.\<close>

definition empty_fs :: filesystem where
  "empty_fs = \<lparr>files = Map.empty, create_error = Map.empty\<rparr>"

definition txt_fs :: filesystem where
  "txt_fs = \<lparr>files = [''data.txt'' \<mapsto> Regular ''a,b''], create_error = Map.empty\<rparr>"

section \<open>Notions used in the statements\<close>

text \<open>
  \<open>converted lib c c'\<close>: the column \<open>c'\<close> is what one pass of the loop body makes of
  \<open>c\<close>: for one of the candidate types of \<open>c\<close>, the converted column, or \<open>c\<close> itself
  when that conversion raises.
\<close>

definition converted :: "'f library \<Rightarrow> 'f column \<Rightarrow> 'f column \<Rightarrow> bool" where
  "converted lib c c' =
     list_ex (\<lambda>t. c' = (case convert lib t c of Inr c'' \<Rightarrow> c'' | Inl e \<Rightarrow> c))
       (possible_types (cdtype c))"



section \<open>Candidate target types\<close>

lemma possible_types_cases:
  "possible_types DInt64 = [StrString, StrCategory]"
  "possible_types DFloat64 = [StrString, StrCategory]"
  "possible_types DObject = [NpInt64, NpFloat64, StrString]"
  "possible_types DBool = [NpInt64, NpFloat64, StrString, StrCategory]"
  "possible_types DCategory = [NpInt64, NpFloat64, StrString]"
  "possible_types DString = [NpInt64, NpFloat64, StrCategory]"
  "possible_types (DOther n) = [NpInt64, NpFloat64, StrString, StrCategory]"
  by (simp_all add: possible_types_def dtype_in_def numeric_types_def eq_object_def)

lemma numeric_dtype_cases: "dtype_in d numeric_types \<longleftrightarrow> d = DInt64 \<or> d = DFloat64"
  by (auto simp add: dtype_in_def numeric_types_def)

lemma possible_types_length: "2 \<le> length (possible_types d)"
  by (cases d) (simp_all add: possible_types_cases)

lemma possible_types_nonempty: "possible_types d \<noteq> []"
  using possible_types_length [of d] by auto

text \<open>
  Claim C1, as amended. For a column whose current type is numeric (\<open>int64\<close> or
  \<open>float64\<close>) the candidate list is exactly \<open>'string'\<close>, \<open>'category'\<close>: the guard of
  lines 81 and 82 takes both numeric types out, so a numeric column becomes text or
  categorical and never the other numeric type.
\<close>

theorem numeric_column_candidates:
  "dtype_in d numeric_types \<Longrightarrow> possible_types d = [StrString, StrCategory]"
  by (auto simp add: numeric_dtype_cases possible_types_cases)

theorem numeric_column_candidates_witness:
  "dtype_in DInt64 numeric_types \<and> possible_types DInt64 = [StrString, StrCategory]"
  using numeric_column_candidates [of DInt64] by (simp add: numeric_dtype_cases)

text \<open>
  Claim C1 as the specification states it fails: the integer type is numeric and the
  floating-point type is not among its candidates.
\<close>

theorem numeric_keeps_other_numeric_counterexample:
  "dtype_in DInt64 numeric_types \<and> NpFloat64 \<notin> set (possible_types DInt64)"
  by (simp add: possible_types_cases numeric_dtype_cases)

text \<open>
  Claim C3, evaluated on the code. For a text column (dtype \<open>object\<close>) the candidate
  list is \<open>np.int64\<close>, \<open>np.float64\<close>, \<open>'string'\<close>: \<open>'category'\<close> is filtered out, but
  \<open>remove\<close> finds no item equal to the dtype \<open>object\<close>, so \<open>'string'\<close> stays and a text
  column may be converted to text again: a generator whose next draw is 2 chooses it.
\<close>

theorem object_column_candidates:
  "possible_types DObject = [NpInt64, NpFloat64, StrString] \<and>
   fst (choice (possible_types DObject) (\<lambda>i. 2)) = StrString"
  by (simp add: possible_types_cases choice_def randbelow_def)

section \<open>The coercion loop\<close>

lemma change_loop_log:
  "\<exists>es. snd (snd (change_loop lib rest df g lg)) = lg @ es \<and> WARNING \<notin> fst ` set es"
proof (induction rest arbitrary: df g lg)
  case Nil
  then show ?case by simp
next
  case (Cons col rest)
  show ?case
  proof (cases "getitem_dtype df col")
    case (Inl e)
    then show ?thesis by simp
  next
    case got: (Inr c)
    obtain t g' where ch: "choice (possible_types (cdtype c)) g = (t, g')"
      by (cases "choice (possible_types (cdtype c)) g")
    show ?thesis
    proof (cases "convert lib t c")
      case (Inl e)
      from Cons.IH [of df g' "lg @ [(ERROR, ''Failed to convert column '' @ quote col
          @ '' from '' @ str_dtype (cdtype c) @ '' to '' @ str_tag t @ '': ''
          @ exn_message e)]"]
      show ?thesis using got possible_types_nonempty ch Inl by (auto simp add: Let_def)
    next
      case (Inr c')
      from Cons.IH [of "setitem df col c'" g' "lg @ [(INFO, ''Column '' @ quote col
          @ '' converted from '' @ str_dtype (cdtype c) @ '' to '' @ str_tag t)]"]
      show ?thesis using got possible_types_nonempty ch Inr by (auto simp add: Let_def)
    qed
  qed
qed

text \<open>
  Claim C10. Whatever the dtype of a column, its candidate list holds at least two
  types, and \<open>change_data_types\<close> only appends to the log and appends no entry of level
  WARNING: the branch that reports a column without candidates is never taken.
\<close>

theorem candidates_never_empty:
  "2 \<le> length (possible_types d) \<and>
   (\<exists>es. snd (snd (change_data_types lib df seed g lg)) = lg @ es \<and> WARNING \<notin> fst ` set es)"
  unfolding change_data_types_def using possible_types_length change_loop_log by blast

section \<open>Shuffling permutes\<close>

lemma randbelow_less: "0 < n \<Longrightarrow> fst (randbelow g n) < n"
  by (simp add: randbelow_def)

lemma shuffle_from_mset:
  "i < length xs \<Longrightarrow> mset (fst (shuffle_from i xs g)) = mset xs"
proof (induction i arbitrary: xs g)
  case 0
  then show ?case by simp
next
  case (Suc i)
  obtain j g' where r: "randbelow g (Suc i + 1) = (j, g')"
    by (cases "randbelow g (Suc i + 1)")
  have "j < Suc i + 1" using randbelow_less [of "Suc i + 1" g] r by simp
  with Suc.prems have j: "j < length xs" by simp
  have "mset (xs[Suc i := xs ! j, j := xs ! Suc i]) = mset xs"
    using mset_swap [OF j Suc.prems] .
  moreover have "i < length (xs[Suc i := xs ! j, j := xs ! Suc i])"
    using Suc.prems by simp
  ultimately show ?case using Suc.IH [of "xs[Suc i := xs ! j, j := xs ! Suc i]" g'] r
    by simp
qed

lemma shuffle_mset: "mset (fst (shuffle xs g)) = mset xs"
proof (cases xs)
  case Nil
  then show ?thesis by (simp add: shuffle_def)
next
  case (Cons x ys)
  then show ?thesis by (simp add: shuffle_def shuffle_from_mset)
qed

lemma shuffle_length: "length (fst (shuffle xs g)) = length xs"
  using shuffle_mset [of xs g] by (rule mset_eq_length)

section \<open>Renaming\<close>

lemma digit_char_inj: "a < 10 \<Longrightarrow> b < 10 \<Longrightarrow> digit_char a = digit_char b \<Longrightarrow> a = b"
proof -
  assume a: "a < 10" and b: "b < 10" and e: "digit_char a = digit_char b"
  from e have "(of_char (digit_char a) :: nat) = of_char (digit_char b)" by simp
  with a b show "a = b" by (simp add: digit_char_def)
qed

lemma str_nat_nonempty: "str_nat n \<noteq> []"
  by (subst str_nat.simps) simp

lemma str_nat_inj: "str_nat m = str_nat n \<Longrightarrow> m = n"
proof (induction m arbitrary: n rule: str_nat.induct)
  case (1 m)
  show ?case
  proof (cases "m < 10")
    case True
    then have m: "str_nat m = [digit_char m]" by (subst str_nat.simps) simp
    show ?thesis
    proof (cases "n < 10")
      case nl: True
      then have "str_nat n = [digit_char n]" by (subst str_nat.simps) simp
      with m "1.prems" True nl show ?thesis by (simp add: digit_char_inj)
    next
      case False
      then have "str_nat n = str_nat (n div 10) @ [digit_char (n mod 10)]"
        by (subst str_nat.simps) simp
      with m "1.prems" str_nat_nonempty [of "n div 10"] show ?thesis by simp
    qed
  next
    case False
    then have m: "str_nat m = str_nat (m div 10) @ [digit_char (m mod 10)]"
      by (subst str_nat.simps) simp
    show ?thesis
    proof (cases "n < 10")
      case True
      then have "str_nat n = [digit_char n]" by (subst str_nat.simps) simp
      with m "1.prems" str_nat_nonempty [of "m div 10"] show ?thesis by simp
    next
      case nf: False
      then have n: "str_nat n = str_nat (n div 10) @ [digit_char (n mod 10)]"
        by (subst str_nat.simps) simp
      from m n "1.prems" have e1: "str_nat (m div 10) = str_nat (n div 10)"
        and e2: "digit_char (m mod 10) = digit_char (n mod 10)" by simp_all
      from "1.IH" [OF False e1] have d: "m div 10 = n div 10" .
      from e2 have r: "m mod 10 = n mod 10" by (simp add: digit_char_inj)
      from d r show ?thesis by (metis div_mult_mod_eq)
    qed
  qed
qed

lemma new_column_names_distinct: "distinct (new_column_names n)"
proof -
  have "inj_on (\<lambda>i. ''column_'' @ str_nat i) (set [0..<n])"
    by (rule inj_onI) (simp add: str_nat_inj)
  then show ?thesis by (simp add: new_column_names_def distinct_map)
qed

lemma new_column_names_length: "length (new_column_names n) = n"
  by (simp add: new_column_names_def)

lemma dict_zip_nth:
  assumes "distinct ks" "length ks = length vs" "i < length ks"
  shows "dict_zip ks vs (ks ! i) = Some (vs ! i)"
proof -
  have "distinct (map fst (rev (zip ks vs)))"
    using assms by (simp add: rev_map [symmetric])
  moreover have "(ks ! i, vs ! i) \<in> set (rev (zip ks vs))"
    using assms by (auto simp add: set_zip)
  ultimately show ?thesis unfolding dict_zip_def by simp
qed

lemma rename_dict_zip_names:
  assumes "distinct (column_names df)" "length vs = length (columns df)"
  shows "column_names (rename (dict_zip (column_names df) vs) df) = vs"
proof (rule nth_equalityI)
  show "length (column_names (rename (dict_zip (column_names df) vs) df)) = length vs"
    using assms by (simp add: column_names_def rename_def)
next
  fix i assume "i < length (column_names (rename (dict_zip (column_names df) vs) df))"
  then have i: "i < length (columns df)" by (simp add: column_names_def rename_def)
  have "dict_zip (column_names df) vs (column_names df ! i) = Some (vs ! i)"
    using assms i by (intro dict_zip_nth) (simp_all add: column_names_def)
  with i show "column_names (rename (dict_zip (column_names df) vs) df) ! i = vs ! i"
    by (simp add: column_names_def rename_def)
qed

lemma rename_keeps:
  "map cvalues (columns (rename m df)) = map cvalues (columns df)"
  "map cdtype (columns (rename m df)) = map cdtype (columns df)"
  "nrows (rename m df) = nrows df"
  "length (columns (rename m df)) = length (columns df)"
  by (simp_all add: rename_def comp_def)

lemma randomize_column_names_fst:
  "fst (randomize_column_names lib df seed g) =
   rename (dict_zip (column_names df)
            (fst (shuffle (new_column_names (length (columns df))) (seed_if_truthy lib seed g)))) df"
  by (simp add: randomize_column_names_def Let_def split: prod.splits)

text \<open>
  Claim C5, as amended. For a table of \<open>n\<close> columns whose names are pairwise distinct
  (as \<open>read_csv\<close> delivers them), the names after \<open>randomize_column_names\<close> are
  exactly \<open>column_0\<close>, ..., \<open>column_(n-1)\<close>, they are pairwise distinct, they arise
  from the old names through a bijection, and the number of columns, the values and dtype
  of the column at each position and the row count are unchanged.
\<close>

theorem renamer_bijection:
  assumes "distinct (column_names df)"
  shows "let out = fst (randomize_column_names lib df seed g); n = length (columns df) in
           set (column_names out) = (\<lambda>i. ''column_'' @ str_nat i) ` {0..<n} \<and>
           distinct (column_names out) \<and>
           (\<exists>f. bij_betw f (set (column_names df)) (set (column_names out)) \<and>
                column_names out = map f (column_names df)) \<and>
           length (columns out) = n \<and>
           map cvalues (columns out) = map cvalues (columns df) \<and>
           map cdtype (columns out) = map cdtype (columns df) \<and>
           nrows out = nrows df"
proof -
  define n where "n = length (columns df)"
  define vs where "vs = fst (shuffle (new_column_names n) (seed_if_truthy lib seed g))"
  define m where "m = dict_zip (column_names df) vs"
  define out where "out = rename m df"
  define f where "f = (\<lambda>k. case m k of Some v \<Rightarrow> v | None \<Rightarrow> k)"
  have out: "fst (randomize_column_names lib df seed g) = out"
    by (simp add: randomize_column_names_fst out_def m_def vs_def n_def)
  have ms: "mset vs = mset (new_column_names n)"
    by (simp add: vs_def shuffle_mset)
  have len: "length vs = length (columns df)"
    using mset_eq_length [OF ms] by (simp add: new_column_names_length n_def)
  have names: "column_names out = vs"
    unfolding out_def m_def using assms len by (rule rename_dict_zip_names)
  have dist: "distinct vs"
    using mset_eq_imp_distinct_iff [OF ms] new_column_names_distinct by simp
  have "set vs = set (new_column_names n)"
    using ms by (rule mset_eq_setD)
  then have sets: "set vs = (\<lambda>i. ''column_'' @ str_nat i) ` {0..<n}"
    by (simp add: new_column_names_def)
  have mapf: "column_names out = map f (column_names df)"
    by (simp add: out_def rename_def column_names_def f_def comp_def)
  have "distinct (map f (column_names df))"
    using dist names mapf by simp
  then have "inj_on f (set (column_names df))"
    by (simp add: distinct_map)
  moreover have "f ` set (column_names df) = set (column_names out)"
    using mapf by simp
  ultimately have bij: "bij_betw f (set (column_names df)) (set (column_names out))"
    by (simp add: bij_betw_def)
  have keep: "length (columns out) = n" "map cvalues (columns out) = map cvalues (columns df)"
    "map cdtype (columns out) = map cdtype (columns df)" "nrows out = nrows df"
    by (simp_all add: out_def rename_keeps n_def)
  show ?thesis
    unfolding Let_def out n_def [symmetric]
    using sets names dist bij mapf keep by auto
qed

theorem renamer_bijection_witness:
  "distinct (column_names sample_table) \<and>
   (let out = fst (randomize_column_names sample_library sample_table (Some 7) (\<lambda>i. 0));
        n = length (columns sample_table) in
      set (column_names out) = (\<lambda>i. ''column_'' @ str_nat i) ` {0..<n} \<and>
      distinct (column_names out) \<and>
      (\<exists>f. bij_betw f (set (column_names sample_table)) (set (column_names out)) \<and>
           column_names out = map f (column_names sample_table)) \<and>
      length (columns out) = n \<and>
      map cvalues (columns out) = map cvalues (columns sample_table) \<and>
      map cdtype (columns out) = map cdtype (columns sample_table) \<and>
      nrows out = nrows sample_table)"
proof -
  have h: "distinct (column_names sample_table)"
    by (simp add: sample_table_def column_names_def)
  show ?thesis by (intro conjI h renamer_bijection [OF h])
qed

text \<open>
  Claim C5 as the specification states it, for every table, fails: when two columns
  carry the same name, the dictionary built from \<open>zip\<close> has one entry for both and both
  columns receive the same new name.
\<close>

theorem renamer_duplicate_names_counterexample:
  "\<not> distinct (column_names
       (fst (randomize_column_names sample_library duplicate_table None (\<lambda>i. 0))))"
  by (simp add: randomize_column_names_def duplicate_table_def seed_if_truthy_def shuffle_def
      randbelow_def new_column_names_def column_names_def rename_def dict_zip_def
      str_nat.simps)

section \<open>Reordering\<close>

lemma filter_unique:
  "distinct (map f xs) \<Longrightarrow> x \<in> set xs \<Longrightarrow> filter (\<lambda>y. f y = f x) xs = [x]"
proof (induction xs)
  case Nil
  then show ?case by simp
next
  case (Cons a xs)
  show ?case
  proof (cases "x = a")
    case True
    have "f a \<notin> f ` set xs"
      using Cons.prems(1) by simp
    then have "filter (\<lambda>y. f y = f a) xs = []"
      unfolding filter_empty_conv by (metis imageI)
    with True show ?thesis by simp
  next
    case False
    with Cons.prems have "x \<in> set xs" "f a \<noteq> f x" by auto
    with Cons show ?thesis by simp
  qed
qed

lemma concat_filter_names:
  assumes "distinct (map f xs)"
  shows "concat (map (\<lambda>n. filter (\<lambda>y. f y = n) xs) (map f xs)) = xs"
proof -
  have "map (\<lambda>n. filter (\<lambda>y. f y = n) xs) (map f xs) = map (\<lambda>x. [x]) xs"
    unfolding map_map comp_def by (rule map_cong) (simp_all add: filter_unique [OF assms])
  moreover have "concat (map (\<lambda>x. [x]) xs) = xs"
    by (induction xs) simp_all
  ultimately show ?thesis by (simp only:)
qed

lemma mset_concat_map_cong:
  assumes "mset ns = mset ms"
  shows "mset (concat (map F ns)) = mset (concat (map F ms))"
proof -
  have "mset (concat (map F ns)) = sum_mset (image_mset (\<lambda>n. mset (F n)) (mset ns))"
    by (simp add: mset_concat comp_def flip: sum_mset_sum_list)
  also have "\<dots> = sum_mset (image_mset (\<lambda>n. mset (F n)) (mset ms))"
    using assms by simp
  also have "\<dots> = mset (concat (map F ms))"
    by (simp add: mset_concat comp_def flip: sum_mset_sum_list)
  finally show ?thesis .
qed

lemma reorder_columns_fst:
  "fst (reorder_columns lib df seed g) =
   getitem_list df (fst (shuffle (column_names df) (seed_if_truthy lib seed g)))"
  by (simp add: reorder_columns_def Let_def split: prod.splits)

lemma reorder_columns_mset:
  assumes "distinct (column_names df)"
  shows "mset (columns (fst (reorder_columns lib df seed g))) = mset (columns df)"
proof -
  define ns where "ns = fst (shuffle (column_names df) (seed_if_truthy lib seed g))"
  have "mset ns = mset (map cname (columns df))"
    by (simp add: ns_def shuffle_mset column_names_def)
  then have "mset (concat (map (\<lambda>n. filter (\<lambda>c. cname c = n) (columns df)) ns)) =
     mset (concat (map (\<lambda>n. filter (\<lambda>c. cname c = n) (columns df)) (map cname (columns df))))"
    by (rule mset_concat_map_cong)
  also have "\<dots> = mset (columns df)"
    using assms by (simp only: concat_filter_names column_names_def)
  finally show ?thesis
    by (simp add: reorder_columns_fst getitem_list_def ns_def)
qed

text \<open>
  Claim C6, as amended. For a table whose column names are pairwise distinct, the
  columns after \<open>reorder_columns\<close> are a permutation of the columns before: the same
  columns, each with its name, dtype and values, in some order; the row count is
  unchanged.
\<close>

theorem reorder_permutes:
  assumes "distinct (column_names df)"
  shows "mset (columns (fst (reorder_columns lib df seed g))) = mset (columns df) \<and>
         nrows (fst (reorder_columns lib df seed g)) = nrows df"
  using reorder_columns_mset [OF assms, of lib seed g]
  by (simp add: reorder_columns_fst getitem_list_def)

theorem reorder_permutes_witness:
  "distinct (column_names sample_table) \<and>
   mset (columns (fst (reorder_columns sample_library sample_table (Some 7) (\<lambda>i. 0))))
     = mset (columns sample_table) \<and>
   nrows (fst (reorder_columns sample_library sample_table (Some 7) (\<lambda>i. 0)))
     = nrows sample_table"
proof -
  have h: "distinct (column_names sample_table)"
    by (simp add: sample_table_def column_names_def)
  show ?thesis using h reorder_permutes [OF h] by blast
qed

text \<open>
  Claim C6 as the specification states it, for every table, fails: when two columns
  carry the same name, each occurrence of the name selects both, and the result has
  four columns.
\<close>

theorem reorder_duplicate_names_counterexample:
  "mset (columns (fst (reorder_columns sample_library duplicate_table None (\<lambda>i. 0))))
     \<noteq> mset (columns duplicate_table)"
proof
  assume "mset (columns (fst (reorder_columns sample_library duplicate_table None (\<lambda>i. 0))))
     = mset (columns duplicate_table)"
  then have "length (columns (fst (reorder_columns sample_library duplicate_table None (\<lambda>i. 0))))
     = length (columns duplicate_table)"
    by (rule mset_eq_length)
  then show False
    by (simp add: reorder_columns_def duplicate_table_def seed_if_truthy_def shuffle_def
        randbelow_def column_names_def getitem_list_def)
qed

section \<open>Seeding\<close>

text \<open>
  Claim C8, evaluated on the code at the seed 0. The test \<open>if seed:\<close> is false for 0,
  so no stage reseeds the generator: each stage behaves as when no seed is given and
  works from the state the generator happens to be in.
\<close>

theorem seed_zero_not_reseeded:
  "seed_if_truthy lib (Some 0) g = g \<and>
   randomize_column_names lib df (Some 0) g = randomize_column_names lib df None g \<and>
   reorder_columns lib df (Some 0) g = reorder_columns lib df None g \<and>
   change_data_types lib df (Some 0) g lg = change_data_types lib df None g lg"
  by (simp add: seed_if_truthy_def randomize_column_names_def reorder_columns_def
      change_data_types_def)

lemma seed_nonzero_reseeds:
  "s \<noteq> 0 \<Longrightarrow> seed_if_truthy lib (Some s) g = seed_gen lib s"
  by (simp add: seed_if_truthy_def)

section \<open>Conversions and the loop over the columns\<close>

lemma those_length: "those xs = Some ys \<Longrightarrow> length ys = length xs"
  by (induction xs arbitrary: ys) (auto split: option.splits)



lemma to_numeric_length:
  "to_numeric lib vs = IntSeries is \<Longrightarrow> length is = length vs"
  "to_numeric lib vs = FloatSeries fs \<Longrightarrow> length fs = length vs"
  by (auto simp add: to_numeric_def Let_def split: option.splits dest: those_length)

lemma convert_cname: "convert lib t c = Inr c' \<Longrightarrow> cname c' = cname c"
  by (cases t) (auto split: sum.splits)

lemma convert_length: "convert lib t c = Inr c' \<Longrightarrow> length (cvalues c') = length (cvalues c)"
proof (cases t)
  case NpInt64
  assume "convert lib t c = Inr c'"
  with NpInt64 show ?thesis
    by (cases "to_numeric lib (cvalues c)")
      (auto split: sum.splits if_splits dest: to_numeric_length)
next
  case NpFloat64
  assume "convert lib t c = Inr c'"
  with NpFloat64 show ?thesis
    by (cases "to_numeric lib (cvalues c)") (auto dest: to_numeric_length)
next
  case StrString
  assume "convert lib t c = Inr c'"
  with StrString show ?thesis by auto
next
  case StrCategory
  assume "convert lib t c = Inr c'"
  with StrCategory show ?thesis by auto
qed

lemma converted_keeps:
  assumes "converted lib c c'"
  shows "cname c' = cname c" "length (cvalues c') = length (cvalues c)"
proof -
  from assms obtain t where
    c': "c' = (case convert lib t c of Inr c'' \<Rightarrow> c'' | Inl e \<Rightarrow> c)"
    by (auto simp add: converted_def list_ex_iff)
  show "cname c' = cname c"
    using c' by (cases "convert lib t c") (simp_all add: convert_cname)
  show "length (cvalues c') = length (cvalues c)"
    using c' by (cases "convert lib t c") (simp_all add: convert_length)
qed

lemma choice_in_set: "xs \<noteq> [] \<Longrightarrow> fst (choice xs g) \<in> set xs"
  by (simp add: choice_def randbelow_def)

lemma getitem_dtype_unique:
  assumes "distinct (column_names df)" "c \<in> set (columns df)"
  shows "getitem_dtype df (cname c) = Inr c"
proof -
  have "filter (\<lambda>y. cname y = cname c) (columns df) = [c]"
    using assms by (intro filter_unique) (simp_all add: column_names_def)
  then show ?thesis by (simp add: getitem_dtype_def)
qed

lemma change_loop_distinct:
  assumes "distinct (column_names df)" "distinct rest" "set rest \<subseteq> set (column_names df)"
  shows "\<exists>df'. fst (change_loop lib rest df g lg) = Inr df' \<and> nrows df' = nrows df \<and>
           list_all2 (\<lambda>c c'. if cname c \<in> set rest then converted lib c c' else c' = c)
             (columns df) (columns df')"
  using assms
proof (induction rest arbitrary: df g lg)
  case Nil
  then show ?case by (simp add: list_all2_same)
next
  case (Cons col rest)
  from Cons.prems(3) obtain c where c: "c \<in> set (columns df)" "cname c = col"
    by (auto simp add: column_names_def)
  have inj: "inj_on cname (set (columns df))"
    using Cons.prems(1) by (simp add: column_names_def distinct_map)
  have uniq: "\<And>x. x \<in> set (columns df) \<Longrightarrow> cname x = col \<Longrightarrow> x = c"
    using inj c by (auto dest: inj_onD)
  have got: "getitem_dtype df col = Inr c"
    using getitem_dtype_unique [OF Cons.prems(1) c(1)] c(2) by simp
  obtain t g' where ch: "choice (possible_types (cdtype c)) g = (t, g')"
    by (cases "choice (possible_types (cdtype c)) g")
  have t: "t \<in> set (possible_types (cdtype c))"
    using choice_in_set [OF possible_types_nonempty, of "cdtype c" g] ch by simp
  define c1 where "c1 = (case convert lib t c of Inr c'' \<Rightarrow> c'' | Inl e \<Rightarrow> c)"
  define df1 where "df1 = (case convert lib t c of Inr c'' \<Rightarrow> setitem df col c'' | Inl e \<Rightarrow> df)"
  have conv: "converted lib c c1"
    using t by (auto simp add: converted_def list_ex_iff c1_def)
  have c1name: "cname c1 = col"
    using converted_keeps(1) [OF conv] c(2) by simp
  have cols1: "columns df1 = map (\<lambda>x. if cname x = col then c1 else x) (columns df)"
  proof (cases "convert lib t c")
    case (Inl e)
    then have e: "c1 = c" "df1 = df" by (simp_all add: c1_def df1_def)
    have m: "map (\<lambda>x. if cname x = col then c else x) (columns df) = columns df"
      using uniq by (simp add: map_idI)
    show ?thesis unfolding e by (rule m [symmetric])
  next
    case (Inr c'')
    then show ?thesis by (simp add: c1_def df1_def setitem_def)
  qed
  have rows1: "nrows df1 = nrows df"
    by (cases "convert lib t c") (simp_all add: df1_def setitem_def)
  have names1: "column_names df1 = column_names df"
    using c1name by (simp add: column_names_def cols1 comp_def cong: map_cong)
  have step: "\<exists>lg1. change_loop lib (col # rest) df g lg = change_loop lib rest df1 g' lg1"
    using got ch possible_types_nonempty [of "cdtype c"]
    by (cases "convert lib t c") (auto simp add: df1_def Let_def)
  then obtain lg1 where
    step1: "change_loop lib (col # rest) df g lg = change_loop lib rest df1 g' lg1" ..
  have "distinct (column_names df1)" "distinct rest" "set rest \<subseteq> set (column_names df1)"
    using Cons.prems names1 by simp_all
  from Cons.IH [OF this, of g' lg1] obtain df' where
    res: "fst (change_loop lib rest df1 g' lg1) = Inr df'" and
    rows: "nrows df' = nrows df1" and
    rel: "list_all2 (\<lambda>c c'. if cname c \<in> set rest then converted lib c c' else c' = c)
            (columns df1) (columns df')"
    by blast
  have notin: "col \<notin> set rest" using Cons.prems(2) by simp
  have len: "length (columns df') = length (columns df)"
    using list_all2_lengthD [OF rel] by (simp add: cols1)
  have "list_all2 (\<lambda>c c'. if cname c \<in> set (col # rest) then converted lib c c' else c' = c)
          (columns df) (columns df')"
  proof (rule list_all2_all_nthI)
    show "length (columns df) = length (columns df')" using len by simp
  next
    fix i assume i: "i < length (columns df)"
    let ?x = "columns df ! i" and ?x' = "columns df' ! i"
    have x1: "columns df1 ! i = (if cname ?x = col then c1 else ?x)"
      using i by (simp add: cols1)
    have r: "if cname (columns df1 ! i) \<in> set rest
             then converted lib (columns df1 ! i) ?x' else ?x' = columns df1 ! i"
      using list_all2_nthD [OF rel, of i] i by (simp add: cols1)
    show "if cname ?x \<in> set (col # rest) then converted lib ?x ?x' else ?x' = ?x"
    proof (cases "cname ?x = col")
      case True
      then have "?x = c" using uniq i by simp
      moreover have "?x' = c1" using r x1 True c1name notin by simp
      ultimately show ?thesis using conv True by simp
    next
      case False
      with x1 have e: "columns df1 ! i = ?x" by simp
      from r [unfolded e] False show ?thesis by simp
    qed
  qed
  with res rows rows1 step1 show ?case by auto
qed

lemma change_data_types_converted:
  assumes "distinct (column_names df)"
  shows "\<exists>df'. fst (change_data_types lib df seed g lg) = Inr df' \<and> nrows df' = nrows df \<and>
           list_all2 (converted lib) (columns df) (columns df')"
proof -
  from change_loop_distinct [OF assms assms subset_refl, of lib "seed_if_truthy lib seed g" lg]
  obtain df' where
    res: "fst (change_loop lib (column_names df) df (seed_if_truthy lib seed g) lg) = Inr df'" and
    rows: "nrows df' = nrows df" and
    rel: "list_all2 (\<lambda>c c'. if cname c \<in> set (column_names df) then converted lib c c'
            else c' = c) (columns df) (columns df')"
    by blast
  have "list_all2 (converted lib) (columns df) (columns df')"
  proof (rule list_all2_all_nthI)
    show "length (columns df) = length (columns df')" using rel by (rule list_all2_lengthD)
  next
    fix i assume i: "i < length (columns df)"
    then have "cname (columns df ! i) \<in> set (column_names df)"
      by (simp add: column_names_def)
    with list_all2_nthD [OF rel i] show "converted lib (columns df ! i) (columns df' ! i)"
      by simp
  qed
  with res rows show ?thesis by (auto simp add: change_data_types_def)
qed

lemma converted_int64:
  assumes "converted lib c c'" "cdtype c = DInt64"
  shows "cdtype c' \<in> {DObject, DCategory}"
proof -
  from assms obtain t where t: "t \<in> set (possible_types DInt64)" and
    c': "c' = (case convert lib t c of Inr c'' \<Rightarrow> c'' | Inl e \<Rightarrow> c)"
    by (auto simp add: converted_def list_ex_iff)
  from t have "t = StrString \<or> t = StrCategory" by (simp add: possible_types_cases)
  with c' show ?thesis by auto
qed

text \<open>
  Claim C2, as amended. For a column whose original type is \<open>int64\<close>, the 64-bit
  signed integer type, whatever the seed and the state of the generator, the type chosen
  is \<open>'string'\<close> or \<open>'category'\<close>, and after \<open>change_data_types\<close> (on a table with
  pairwise distinct names, as the earlier stages deliver it) the column at that position
  has dtype \<open>object\<close> (text) or \<open>category\<close>.
\<close>

theorem integer_column_choice:
  assumes "distinct (column_names df)" "i < length (columns df)"
    "cdtype (columns df ! i) = DInt64"
  shows "fst (choice (possible_types (cdtype (columns df ! i))) g') \<in> {StrString, StrCategory} \<and>
         (\<exists>df'. fst (change_data_types lib df seed g lg) = Inr df' \<and>
                length (columns df') = length (columns df) \<and>
                cdtype (columns df' ! i) \<in> {DObject, DCategory})"
proof -
  have "fst (choice (possible_types DInt64) g') \<in> set (possible_types DInt64)"
    by (rule choice_in_set) (rule possible_types_nonempty)
  then have a: "fst (choice (possible_types (cdtype (columns df ! i))) g') \<in> {StrString, StrCategory}"
    using assms(3) by (simp add: possible_types_cases)
  from change_data_types_converted [OF assms(1), of lib seed g lg] obtain df' where
    res: "fst (change_data_types lib df seed g lg) = Inr df'" and
    rel: "list_all2 (converted lib) (columns df) (columns df')"
    by blast
  have "converted lib (columns df ! i) (columns df' ! i)"
    using list_all2_nthD [OF rel assms(2)] .
  then have "cdtype (columns df' ! i) \<in> {DObject, DCategory}"
    using assms(3) by (rule converted_int64)
  with a res list_all2_lengthD [OF rel] show ?thesis by auto
qed

theorem integer_column_choice_witness:
  "distinct (column_names sample_table) \<and> 0 < length (columns sample_table) \<and>
   cdtype (columns sample_table ! 0) = DInt64 \<and>
   fst (choice (possible_types (cdtype (columns sample_table ! 0))) (seed_gen sample_library 42))
     \<in> {StrString, StrCategory} \<and>
   (\<exists>df'. fst (change_data_types sample_library sample_table (Some 42) (\<lambda>i. 0) []) = Inr df' \<and>
          length (columns df') = length (columns sample_table) \<and>
          cdtype (columns df' ! 0) \<in> {DObject, DCategory})"
proof -
  have h: "distinct (column_names sample_table)" "0 < length (columns sample_table)"
    "cdtype (columns sample_table ! 0) = DInt64"
    by (simp_all add: sample_table_def column_names_def)
  show ?thesis using h integer_column_choice [OF h] by blast
qed

text \<open>
  Claim C2 as the specification states it, for every column of integer type, fails: the
  dtype \<open>uint64\<close> is an integer type that is not in \<open>numeric_types\<close>, so all four
  candidates stay; a generator whose next draw is 0 chooses \<open>np.int64\<close>, and the column
  ends with dtype \<open>int64\<close>, which is neither text nor categorical.
\<close>

theorem unsigned_integer_column_counterexample:
  "cdtype (columns uint64_table ! 0) = DOther ''uint64'' \<and>
   fst (choice (possible_types (cdtype (columns uint64_table ! 0))) (\<lambda>i. 0)) = NpInt64 \<and>
   fst (change_data_types sample_library uint64_table None (\<lambda>i. 0) []) =
     Inr \<lparr>columns = [\<lparr>cname = ''u'', cdtype = DInt64,
                        cvalues = [IntV 9223372036854775808]\<rparr>],
          nrows = 1\<rparr>"
  by (simp add: uint64_table_def possible_types_cases choice_def randbelow_def
      change_data_types_def column_names_def seed_if_truthy_def getitem_dtype_def
      to_numeric_def setitem_def)

section \<open>Row counts\<close>














section \<open>The fallback policy of the conversions\<close>















section \<open>Errors in the main routine\<close>

lemma handle_fields:
  "exit_status (handle e fs g lg) = 0"
  "fsys (handle e fs g lg) = fs"
  "logged (handle e fs g lg) = lg @ [(ERROR, handler_message e)]"
  by (simp_all add: handle_def)

lemma main_exit_status: "exit_status (main lib input_file output_file seed fs g lg) = 0"
  by (simp add: main_def handle_fields Let_def split: sum.splits prod.splits)

text \<open>
  Claim C9. Whatever the inputs, \<open>main\<close> returns and the exit status is 0. When input
  validation, loading, a stage or the write raises, the files are as before and the last
  log entry has level ERROR and carries the message of the handler; for a failed
  validation or load it is the only entry added. An input path without a file fails
  validation as not found, and an existing file whose name does not end in \<open>.csv\<close>
  fails it as not a CSV file, so in both cases no output file is produced.
\<close>

theorem fatal_errors_caught:
  "let p = main lib input_file output_file seed fs g lg;
       lg1 = lg @ [(INFO, ''Successfully read input file: '' @ input_file)] in
     exit_status p = 0 \<and>
     (\<forall>e. validate_input fs input_file = Inl e \<longrightarrow>
        fsys p = fs \<and> logged p = lg @ [(ERROR, handler_message e)]) \<and>
     (\<forall>e. validate_input fs input_file = Inr () \<and> load_csv lib fs input_file = Inl e \<longrightarrow>
        fsys p = fs \<and> logged p = lg @ [(ERROR, handler_message e)]) \<and>
     (\<forall>df e. validate_input fs input_file = Inr () \<and> load_csv lib fs input_file = Inr df \<and>
        fst (apply_randomization lib df seed g lg1) = Inl e \<longrightarrow>
        fsys p = fs \<and> last (logged p) = (ERROR, handler_message e)) \<and>
     (\<forall>df df' e. validate_input fs input_file = Inr () \<and> load_csv lib fs input_file = Inr df \<and>
        fst (apply_randomization lib df seed g lg1) = Inr df' \<and>
        open_write fs output_file (to_csv lib df') = Inl e \<longrightarrow>
        fsys p = fs \<and> last (logged p) = (ERROR, handler_message e)) \<and>
     (files fs input_file = None \<longrightarrow>
        validate_input fs input_file =
          Inl (FileNotFoundError (''Input file not found: '' @ input_file))) \<and>
     (\<forall>t. files fs input_file = Some (Regular t) \<and>
        \<not> endswith (map lower_char input_file) ''.csv'' \<longrightarrow>
        validate_input fs input_file = Inl (ValueError ''Input file must be a CSV file.''))"
proof -
  let ?p = "main lib input_file output_file seed fs g lg"
  let ?lg1 = "lg @ [(INFO, ''Successfully read input file: '' @ input_file)]"
  have a: "\<forall>e. validate_input fs input_file = Inl e \<longrightarrow>
        fsys ?p = fs \<and> logged ?p = lg @ [(ERROR, handler_message e)]"
    by (simp add: main_def handle_fields)
  have b: "\<forall>e. validate_input fs input_file = Inr () \<and> load_csv lib fs input_file = Inl e \<longrightarrow>
        fsys ?p = fs \<and> logged ?p = lg @ [(ERROR, handler_message e)]"
    by (simp add: main_def handle_fields)
  have c: "\<forall>df e. validate_input fs input_file = Inr () \<and> load_csv lib fs input_file = Inr df \<and>
        fst (apply_randomization lib df seed g ?lg1) = Inl e \<longrightarrow>
        fsys ?p = fs \<and> last (logged ?p) = (ERROR, handler_message e)"
    by (auto simp add: main_def handle_fields Let_def split: prod.splits)
  have d: "\<forall>df df' e. validate_input fs input_file = Inr () \<and> load_csv lib fs input_file = Inr df \<and>
        fst (apply_randomization lib df seed g ?lg1) = Inr df' \<and>
        open_write fs output_file (to_csv lib df') = Inl e \<longrightarrow>
        fsys ?p = fs \<and> last (logged ?p) = (ERROR, handler_message e)"
    by (auto simp add: main_def handle_fields Let_def split: prod.splits)
  have e: "files fs input_file = None \<longrightarrow>
        validate_input fs input_file =
          Inl (FileNotFoundError (''Input file not found: '' @ input_file))"
    by (simp add: validate_input_def open_read_def)
  have f: "\<forall>t. files fs input_file = Some (Regular t) \<and>
        \<not> endswith (map lower_char input_file) ''.csv'' \<longrightarrow>
        validate_input fs input_file = Inl (ValueError ''Input file must be a CSV file.'')"
    by (simp add: validate_input_def open_read_def)
  show ?thesis
    unfolding Let_def
    by (rule conjI [OF main_exit_status conjI [OF a conjI [OF b conjI [OF c conjI [OF d
          conjI [OF e f]]]]]])
qed


theorem fatal_errors_caught_witness:
  "files empty_fs ''missing.csv'' = None \<and>
   validate_input empty_fs ''missing.csv''
     = Inl (FileNotFoundError ''Input file not found: missing.csv'') \<and>
   exit_status (main sample_library ''missing.csv'' ''out.csv'' None empty_fs (\<lambda>i. 0) []) = 0 \<and>
   fsys (main sample_library ''missing.csv'' ''out.csv'' None empty_fs (\<lambda>i. 0) []) = empty_fs \<and>
   logged (main sample_library ''missing.csv'' ''out.csv'' None empty_fs (\<lambda>i. 0) [])
     = [(ERROR, ''Input file not found: missing.csv'')] \<and>
   files (fsys (main sample_library ''missing.csv'' ''out.csv'' None empty_fs (\<lambda>i. 0) []))
     ''out.csv'' = None \<and>
   files txt_fs ''data.txt'' = Some (Regular ''a,b'') \<and>
   \<not> endswith (map lower_char ''data.txt'') ''.csv'' \<and>
   fsys (main sample_library ''data.txt'' ''out.csv'' None txt_fs (\<lambda>i. 0) []) = txt_fs \<and>
   logged (main sample_library ''data.txt'' ''out.csv'' None txt_fs (\<lambda>i. 0) [])
     = [(ERROR, ''Input file must be a CSV file.'')]"
proof -
  have h: "files empty_fs ''missing.csv'' = None" by (simp add: empty_fs_def)
  note t = fatal_errors_caught [of sample_library "''missing.csv''" "''out.csv''" None
      empty_fs "\<lambda>i. 0" "[]", unfolded Let_def]
  from t h have v: "validate_input empty_fs ''missing.csv''
     = Inl (FileNotFoundError ''Input file not found: missing.csv'')" by simp
  from t v have m:
    "exit_status (main sample_library ''missing.csv'' ''out.csv'' None empty_fs (\<lambda>i. 0) []) = 0"
    "fsys (main sample_library ''missing.csv'' ''out.csv'' None empty_fs (\<lambda>i. 0) []) = empty_fs"
    "logged (main sample_library ''missing.csv'' ''out.csv'' None empty_fs (\<lambda>i. 0) [])
       = [(ERROR, ''Input file not found: missing.csv'')]"
    by simp_all
  have h': "files txt_fs ''data.txt'' = Some (Regular ''a,b'')"
    "\<not> endswith (map lower_char ''data.txt'') ''.csv''"
    by (simp_all add: txt_fs_def endswith_def lower_char_def)
  note t' = fatal_errors_caught [of sample_library "''data.txt''" "''out.csv''" None
      txt_fs "\<lambda>i. 0" "[]", unfolded Let_def]
  from t' h' have v': "validate_input txt_fs ''data.txt''
     = Inl (ValueError ''Input file must be a CSV file.'')" by simp
  from t' v' have m':
    "fsys (main sample_library ''data.txt'' ''out.csv'' None txt_fs (\<lambda>i. 0) []) = txt_fs"
    "logged (main sample_library ''data.txt'' ''out.csv'' None txt_fs (\<lambda>i. 0) [])
       = [(ERROR, ''Input file must be a CSV file.'')]"
    by simp_all
  have n: "files (fsys (main sample_library ''missing.csv'' ''out.csv'' None empty_fs
      (\<lambda>i. 0) [])) ''out.csv'' = None"
    unfolding m(2) by (simp add: empty_fs_def)
  show ?thesis by (intro conjI h v m n h' m')
qed

end
